theory Spec2Isabelle
  imports Main
begin

section \<open>Python values\<close>

text \<open>
  The handlers of \<^verbatim>\<open>src/myApp/app.py\<close> work on values parsed from JSON and on the
  strings of the query and the form. A parsed JSON value is a scalar (\<open>None\<close>, a boolean,
  an integer, a string), a list or a dictionary. A string is the list of the bytes of its
  UTF-8 encoding. A value of the environment is the list of bytes the process was given:
  where these are not valid UTF-8, \<^verbatim>\<open>os.getenv\<close> yields a string with lone surrogates in
  their place, which cannot be encoded again. Numbers are integers: a fractional JSON
  number has no counterpart here.
  A dictionary is an association list in insertion order whose first binding of a key is
  the one a lookup finds.
\<close>

datatype atom = ANone | ABool bool | AInt int | AStr string

datatype json = Atom atom | Arr "json list" | Obj "(string \<times> json) list"

abbreviation PyNone :: json where
  "PyNone \<equiv> Atom ANone"

abbreviation Str :: "string \<Rightarrow> json" where
  "Str s \<equiv> Atom (AStr s)"

text \<open>The exceptions the handlers can meet outside a \<^verbatim>\<open>try\<close> block, or inside one.\<close>

datatype exn = TypeError | AttributeError | KeyError | UnicodeEncodeError

text \<open>Truthiness, as \<^verbatim>\<open>not x\<close> and \<^verbatim>\<open>if x\<close> test it.\<close>

fun atom_truthy :: "atom \<Rightarrow> bool" where
  "atom_truthy ANone = False"
| "atom_truthy (ABool b) = b"
| "atom_truthy (AInt n) = (n \<noteq> 0)"
| "atom_truthy (AStr s) = (s \<noteq> [])"

fun truthy :: "json \<Rightarrow> bool" where
  "truthy (Atom a) = atom_truthy a"
| "truthy (Arr xs) = (xs \<noteq> [])"
| "truthy (Obj kvs) = (kvs \<noteq> [])"

text \<open>A value of \<^verbatim>\<open>os.getenv\<close> or of an optional query parameter: \<open>None\<close> or a string.\<close>

fun opt_truthy :: "string option \<Rightarrow> bool" where
  "opt_truthy None = False"
| "opt_truthy (Some s) = (s \<noteq> [])"

text \<open>An optional string inside an f-string.\<close>

fun fmt_opt :: "string option \<Rightarrow> string" where
  "fmt_opt None = ''None''"
| "fmt_opt (Some s) = s"

text \<open>\<^verbatim>\<open>str\<close> of a scalar, as an f-string formats it.\<close>

definition digit_char :: "nat \<Rightarrow> char" where
  "digit_char d = ''0123456789'' ! d"

fun str_nat :: "nat \<Rightarrow> string" where
  "str_nat n = (if n < 10 then [digit_char n] else str_nat (n div 10) @ [digit_char (n mod 10)])"

declare str_nat.simps [simp del]

definition str_int :: "int \<Rightarrow> string" where
  "str_int i = (if i < 0 then CHR ''-'' # str_nat (nat (- i)) else str_nat (nat i))"

fun py_str :: "atom \<Rightarrow> string" where
  "py_str ANone = ''None''"
| "py_str (ABool b) = (if b then ''True'' else ''False'')"
| "py_str (AInt i) = str_int i"
| "py_str (AStr s) = s"

text \<open>
  Equality of scalars as dictionary keys: \<open>True\<close> and \<open>1\<close>, \<open>False\<close> and \<open>0\<close> are the
  same key; a string equals only the same string; \<open>None\<close> equals only itself.
\<close>

fun py_eq :: "atom \<Rightarrow> atom \<Rightarrow> bool" where
  "py_eq ANone ANone = True"
| "py_eq (AStr s) (AStr t) = (s = t)"
| "py_eq (ABool a) (ABool b) = (a = b)"
| "py_eq (AInt i) (AInt j) = (i = j)"
| "py_eq (ABool a) (AInt j) = ((if a then 1 else 0) = j)"
| "py_eq (AInt i) (ABool b) = (i = (if b then 1 else 0))"
| "py_eq _ _ = False"

text \<open>\<^verbatim>\<open>d.get(k, default)\<close> on a dictionary, and on any value.\<close>

definition dict_get :: "(string \<times> json) list \<Rightarrow> string \<Rightarrow> json \<Rightarrow> json" where
  "dict_get d k dflt = (case map_of d k of None \<Rightarrow> dflt | Some v \<Rightarrow> v)"

fun py_get :: "json \<Rightarrow> string \<Rightarrow> json \<Rightarrow> exn + json" where
  "py_get (Obj d) k dflt = Inr (dict_get d k dflt)"
| "py_get _ k dflt = Inl AttributeError"

text \<open>\<^verbatim>\<open>p in s\<close> on strings: \<open>p\<close> occurs in \<open>s\<close>.\<close>

fun substring :: "string \<Rightarrow> string \<Rightarrow> bool" where
  "substring p [] = (p = [])"
| "substring p (c # cs) = (take (length p) (c # cs) = p \<or> substring p cs)"

text \<open>\<^verbatim>\<open>k in x\<close> for a string \<open>k\<close>: key of a dictionary, element of a list, part of a string.\<close>

fun py_contains :: "string \<Rightarrow> json \<Rightarrow> exn + bool" where
  "py_contains k (Obj d) = Inr (k \<in> set (map fst d))"
| "py_contains k (Arr xs) = Inr (Str k \<in> set xs)"
| "py_contains k (Atom (AStr s)) = Inr (substring k s)"
| "py_contains k (Atom _) = Inl TypeError"

text \<open>\<^verbatim>\<open>x[k]\<close> for a string \<open>k\<close>: only a dictionary accepts it.\<close>

fun py_getitem :: "json \<Rightarrow> string \<Rightarrow> exn + json" where
  "py_getitem (Obj d) k = (case map_of d k of None \<Rightarrow> Inl KeyError | Some v \<Rightarrow> Inr v)"
| "py_getitem _ k = Inl TypeError"

text \<open>\<^verbatim>\<open>len(x)\<close> and the elements a \<^verbatim>\<open>for\<close> loop over \<open>x\<close> visits.\<close>

fun py_len :: "json \<Rightarrow> exn + nat" where
  "py_len (Arr xs) = Inr (length xs)"
| "py_len (Obj d) = Inr (length d)"
| "py_len (Atom (AStr s)) = Inr (length s)"
| "py_len (Atom _) = Inl TypeError"

fun py_iter :: "json \<Rightarrow> exn + json list" where
  "py_iter (Arr xs) = Inr xs"
| "py_iter (Obj d) = Inr (map (\<lambda>kv. Str (fst kv)) d)"
| "py_iter (Atom (AStr s)) = Inr (map (\<lambda>c. Str [c]) s)"
| "py_iter (Atom _) = Inl TypeError"

section \<open>Configuration\<close>

text \<open>
  The process environment after \<^verbatim>\<open>load_dotenv()\<close>, and the module constants read
  from it (lines 19 to 27).
\<close>

type_synonym environ = "string \<rightharpoonup> string"

definition LINKEDIN_CLIENT_ID :: "environ \<Rightarrow> string option" where
  "LINKEDIN_CLIENT_ID env = env ''LINKEDIN_CLIENT_ID''"

definition LINKEDIN_CLIENT_SECRET :: "environ \<Rightarrow> string option" where
  "LINKEDIN_CLIENT_SECRET env = env ''LINKEDIN_CLIENT_SECRET''"

definition LINKEDIN_REDIRECT_URI :: "environ \<Rightarrow> string option" where
  "LINKEDIN_REDIRECT_URI env =
     (case env ''LINKEDIN_REDIRECT_URI'' of
        None \<Rightarrow> Some ''http://localhost:8000/callback''
      | Some v \<Rightarrow> Some v)"

definition LINKEDIN_AUTH_URL :: string where
  "LINKEDIN_AUTH_URL = ''https://www.linkedin.com/oauth/v2/authorization''"

definition LINKEDIN_TOKEN_URL :: string where
  "LINKEDIN_TOKEN_URL = ''https://www.linkedin.com/oauth/v2/accessToken''"

definition LINKEDIN_PROFILE_URL :: string where
  "LINKEDIN_PROFILE_URL = ''https://api.linkedin.com/v2/me''"

definition LINKEDIN_CREATE_POST_URL :: string where
  "LINKEDIN_CREATE_POST_URL = ''https://api.linkedin.com/v2/ugcPosts''"

text \<open>
  \<^verbatim>\<open>LINKEDIN_POSTS_URL_TEMPLATE.format(author_urn=author_urn)\<close>: the template writes
  the field with doubled braces, which \<^verbatim>\<open>format\<close> reads as literal braces, so the
  result is the same string for every author URN.
\<close>

definition LINKEDIN_POSTS_URL_TEMPLATE_format :: "json \<Rightarrow> string" where
  "LINKEDIN_POSTS_URL_TEMPLATE_format author_urn =
     ''https://api.linkedin.com/v2/ugcPosts?author={author_urn}''"

section \<open>The authorization URL\<close>

text \<open>
  Well-formed UTF-8, as the strict decoder and encoder of Python accept it: one byte
  below 128, or a lead byte followed by the continuation bytes its range allows (no
  overlong form, no surrogate, nothing above U+10FFFF). \<open>lead\<close> gives the ranges of the
  bytes that must follow a first byte; \<open>utf8_ok\<close> reads a string with the ranges still
  expected.
\<close>

definition lead :: "nat \<Rightarrow> (nat \<times> nat) list option" where
  "lead n =
     (if n < 128 then Some []
      else if 194 \<le> n \<and> n \<le> 223 then Some [(128, 191)]
      else if n = 224 then Some [(160, 191), (128, 191)]
      else if 225 \<le> n \<and> n \<le> 236 then Some [(128, 191), (128, 191)]
      else if n = 237 then Some [(128, 159), (128, 191)]
      else if 238 \<le> n \<and> n \<le> 239 then Some [(128, 191), (128, 191)]
      else if n = 240 then Some [(144, 191), (128, 191), (128, 191)]
      else if 241 \<le> n \<and> n \<le> 243 then Some [(128, 191), (128, 191), (128, 191)]
      else if n = 244 then Some [(128, 143), (128, 191), (128, 191)]
      else None)"

fun utf8_ok :: "(nat \<times> nat) list \<Rightarrow> string \<Rightarrow> bool" where
  "utf8_ok [] [] = True"
| "utf8_ok (r # rs) [] = False"
| "utf8_ok [] (c # cs) = (case lead (of_char c) of None \<Rightarrow> False | Some rs \<Rightarrow> utf8_ok rs cs)"
| "utf8_ok ((lo, hi) # rs) (c # cs) = (lo \<le> of_char c \<and> of_char c \<le> hi \<and> utf8_ok rs cs)"

definition valid_utf8 :: "string \<Rightarrow> bool" where
  "valid_utf8 s = utf8_ok [] s"

text \<open>
  \<^verbatim>\<open>urllib.parse.urlencode\<close> on a dictionary of strings: each key and value goes
  through \<^verbatim>\<open>quote_plus\<close>, which encodes the string as UTF-8 and raises
  \<^verbatim>\<open>UnicodeEncodeError\<close> where it holds a lone surrogate. Of the bytes it keeps letters,
  digits and \<^verbatim>\<open>_.-~\<close>, writes a space as \<^verbatim>\<open>+\<close> and any other byte as \<^verbatim>\<open>%XX\<close> in
  upper-case hexadecimal (\<open>quote_from_bytes\<close>).
\<close>

definition always_safe :: "char \<Rightarrow> bool" where
  "always_safe c \<longleftrightarrow>
     c \<in> set ''ABCDEFGHIJKLMNOPQRSTUVWXYZabcdefghijklmnopqrstuvwxyz0123456789_.-~''"

definition hex_digit :: "nat \<Rightarrow> char" where
  "hex_digit d = ''0123456789ABCDEF'' ! d"

definition quote_char :: "char \<Rightarrow> string" where
  "quote_char c =
     (if always_safe c then [c]
      else if c = CHR '' '' then ''+''
      else [CHR ''%'', hex_digit (of_char c div 16), hex_digit (of_char c mod 16)])"

definition quote_from_bytes :: "string \<Rightarrow> string" where
  "quote_from_bytes s = concat (map quote_char s)"

definition quote_plus :: "string \<Rightarrow> exn + string" where
  "quote_plus s = (if valid_utf8 s then Inr (quote_from_bytes s) else Inl UnicodeEncodeError)"

fun join_amp :: "string list \<Rightarrow> string" where
  "join_amp [] = []"
| "join_amp [x] = x"
| "join_amp (x # y # ys) = x @ ''&'' @ join_amp (y # ys)"

fun urlencode_pairs :: "(string \<times> string) list \<Rightarrow> exn + string list" where
  "urlencode_pairs [] = Inr []"
| "urlencode_pairs ((k, v) # rest) =
     (case quote_plus k of
        Inl e \<Rightarrow> Inl e
      | Inr k' \<Rightarrow>
     (case quote_plus v of
        Inl e \<Rightarrow> Inl e
      | Inr v' \<Rightarrow>
     (case urlencode_pairs rest of
        Inl e \<Rightarrow> Inl e
      | Inr l \<Rightarrow> Inr ((k' @ ''='' @ v') # l))))"

definition urlencode :: "(string \<times> string) list \<Rightarrow> exn + string" where
  "urlencode params =
     (case urlencode_pairs params of Inl e \<Rightarrow> Inl e | Inr l \<Rightarrow> Inr (join_amp l))"

text \<open>
  \<^verbatim>\<open>get_linkedin_auth_url\<close>, lines 86 to 100. The call of \<^verbatim>\<open>urlencode\<close> (line 100) is
  not inside a \<^verbatim>\<open>try\<close>: what it raises, the function raises.
\<close>

definition get_linkedin_auth_url :: "environ \<Rightarrow> exn + string" where
  "get_linkedin_auth_url env =
     (if \<not> opt_truthy (LINKEDIN_CLIENT_ID env) \<or> \<not> opt_truthy (LINKEDIN_REDIRECT_URI env)
      then Inr ''/error''
      else case urlencode
             [(''response_type'', ''code''),
              (''client_id'', fmt_opt (LINKEDIN_CLIENT_ID env)),
              (''redirect_uri'', fmt_opt (LINKEDIN_REDIRECT_URI env)),
              (''scope'', ''r_liteprofile r_emailaddress w_member_social''),
              (''state'', ''some_random_string_to_prevent_csrf'')] of
             Inl e \<Rightarrow> Inl e
           | Inr query \<Rightarrow> Inr (LINKEDIN_AUTH_URL @ ''?'' @ query))"

section \<open>Outbound HTTP calls\<close>

text \<open>
  A request as \<^verbatim>\<open>httpx\<close> sends it. The \<^verbatim>\<open>Authorization\<close> header is
  \<^verbatim>\<open>f"Bearer {access_token}"\<close>; the model keeps the token value itself under \<open>Bearer\<close>.
\<close>

datatype header_value = Plain string | Bearer json

datatype payload = NoPayload | FormData "(string \<times> string) list" | JsonBody json

record request =
  http_method :: string
  url :: string
  headers :: "(string \<times> header_value) list"
  payload :: payload

text \<open>
  What one call gives back after \<^verbatim>\<open>raise_for_status()\<close> and \<^verbatim>\<open>response.json()\<close>: the
  parsed body of a 2xx response, an \<^verbatim>\<open>httpx.HTTPStatusError\<close>, or any other exception
  (a transport failure, a body that is not JSON, a value the client cannot encode). The provider answers a request knowing
  the requests sent before it, so that its answers may change after a post is created.
\<close>

datatype http_result = Json json | HTTPStatusError | OtherError

type_synonym provider = "request list \<Rightarrow> request \<Rightarrow> http_result"

definition send :: "provider \<Rightarrow> request \<Rightarrow> request list \<Rightarrow> http_result \<times> request list" where
  "send prov rq sent = (prov sent rq, sent @ [rq])"

text \<open>\<^verbatim>\<open>get_linkedin_access_token\<close>, lines 102 to 129. \<open>None\<close> is the failure value.\<close>

definition token_request :: "environ \<Rightarrow> string \<Rightarrow> request" where
  "token_request env code =
     \<lparr>http_method = ''POST'', url = LINKEDIN_TOKEN_URL,
      headers = [(''Content-Type'', Plain ''application/x-www-form-urlencoded'')],
      payload = FormData
        [(''grant_type'', ''authorization_code''),
         (''client_id'', fmt_opt (LINKEDIN_CLIENT_ID env)),
         (''client_secret'', fmt_opt (LINKEDIN_CLIENT_SECRET env)),
         (''redirect_uri'', fmt_opt (LINKEDIN_REDIRECT_URI env)),
         (''code'', code)]\<rparr>"

definition get_linkedin_access_token ::
  "environ \<Rightarrow> provider \<Rightarrow> string \<Rightarrow> request list \<Rightarrow> json \<times> request list" where
  "get_linkedin_access_token env prov code sent =
     (if \<not> opt_truthy (LINKEDIN_CLIENT_ID env) \<or> \<not> opt_truthy (LINKEDIN_CLIENT_SECRET env)
         \<or> \<not> opt_truthy (LINKEDIN_REDIRECT_URI env)
      then (PyNone, sent)
      else case send prov (token_request env code) sent of
             (Json token_data, sent') \<Rightarrow> (token_data, sent')
           | (HTTPStatusError, sent') \<Rightarrow> (PyNone, sent')
           | (OtherError, sent') \<Rightarrow> (PyNone, sent'))"

text \<open>
  \<^verbatim>\<open>get_linkedin_profile\<close>, lines 131 to 149. The log line inside the \<^verbatim>\<open>try\<close> calls
  \<^verbatim>\<open>profile_data.get('id')\<close>, so a body that is not a dictionary raises there and the
  function returns \<open>None\<close>.
\<close>

definition profile_request :: "json \<Rightarrow> request" where
  "profile_request access_token =
     \<lparr>http_method = ''GET'', url = LINKEDIN_PROFILE_URL,
      headers = [(''Authorization'', Bearer access_token)],
      payload = NoPayload\<rparr>"

definition get_linkedin_profile ::
  "provider \<Rightarrow> json \<Rightarrow> request list \<Rightarrow> json \<times> request list" where
  "get_linkedin_profile prov access_token sent =
     (if \<not> truthy access_token then (PyNone, sent)
      else case send prov (profile_request access_token) sent of
             (Json profile_data, sent') \<Rightarrow>
               (case py_get profile_data ''id'' PyNone of
                  Inl e \<Rightarrow> (PyNone, sent')
                | Inr logged \<Rightarrow> (profile_data, sent'))
           | (HTTPStatusError, sent') \<Rightarrow> (PyNone, sent')
           | (OtherError, sent') \<Rightarrow> (PyNone, sent'))"

text \<open>\<^verbatim>\<open>create_linkedin_post\<close>, lines 151 to 189.\<close>

definition create_request :: "json \<Rightarrow> json \<Rightarrow> string \<Rightarrow> request" where
  "create_request access_token author_urn post_content =
     \<lparr>http_method = ''POST'', url = LINKEDIN_CREATE_POST_URL,
      headers = [(''Authorization'', Bearer access_token),
                 (''Content-Type'', Plain ''application/json''),
                 (''X-Restli-Protocol-Version'', Plain ''2.0.0'')],
      payload = JsonBody (Obj
        [(''author'', author_urn),
         (''lifecycleState'', Str ''PUBLISHED''),
         (''specificContent'', Obj
            [(''com.linkedin.ugc.ShareContent'', Obj
               [(''shareCommentary'', Obj [(''text'', Str post_content)]),
                (''shareMediaCategory'', Str ''NONE'')])]),
         (''visibility'', Obj
            [(''com.linkedin.ugc.MemberNetworkVisibility'', Str ''PUBLIC'')])])\<rparr>"

definition create_linkedin_post ::
  "provider \<Rightarrow> json \<Rightarrow> json \<Rightarrow> string \<Rightarrow> request list \<Rightarrow> json \<times> request list" where
  "create_linkedin_post prov access_token author_urn post_content sent =
     (if \<not> truthy access_token \<or> \<not> truthy author_urn then (PyNone, sent)
      else case send prov (create_request access_token author_urn post_content) sent of
             (Json post_result, sent') \<Rightarrow> (post_result, sent')
           | (HTTPStatusError, sent') \<Rightarrow> (PyNone, sent')
           | (OtherError, sent') \<Rightarrow> (PyNone, sent'))"

text \<open>
  \<^verbatim>\<open>fetch_linkedin_posts\<close>, lines 192 to 225. \<open>format_post\<close> is the body of the loop,
  \<open>format_posts\<close> the loop, \<open>parse_posts\<close> what the \<^verbatim>\<open>try\<close> block does with the parsed
  body; each may raise. The function itself catches every exception and returns the
  empty list then.
\<close>

definition format_post :: "json \<Rightarrow> exn + json" where
  "format_post post =
     (case py_get post ''specificContent'' (Obj []) of
        Inl e \<Rightarrow> Inl e
      | Inr specific \<Rightarrow>
     (case py_get specific ''com.linkedin.ugc.ShareContent'' (Obj []) of
        Inl e \<Rightarrow> Inl e
      | Inr share \<Rightarrow>
     (case py_get share ''shareCommentary'' (Obj []) of
        Inl e \<Rightarrow> Inl e
      | Inr commentary \<Rightarrow>
     (case py_get commentary ''text'' (Str ''No text available'') of
        Inl e \<Rightarrow> Inl e
      | Inr post_text \<Rightarrow>
     (case py_get post ''created'' (Str ''Unknown Date'') of
        Inl e \<Rightarrow> Inl e
      | Inr timestamp \<Rightarrow>
          Inr (Obj [(''text'', post_text), (''author_name'', Str ''You''),
                    (''timestamp'', timestamp)]))))))"

fun format_posts :: "json list \<Rightarrow> json list \<Rightarrow> exn + json list" where
  "format_posts [] formatted_posts = Inr formatted_posts"
| "format_posts (post # rest) formatted_posts =
     (case format_post post of
        Inl e \<Rightarrow> Inl e
      | Inr p \<Rightarrow> format_posts rest (formatted_posts @ [p]))"

definition parse_posts :: "json \<Rightarrow> exn + json list" where
  "parse_posts posts_data =
     (case py_get posts_data ''elements'' (Arr []) of
        Inl e \<Rightarrow> Inl e
      | Inr elements \<Rightarrow>
     (case py_len elements of
        Inl e \<Rightarrow> Inl e
      | Inr logged \<Rightarrow>
     (case py_iter elements of
        Inl e \<Rightarrow> Inl e
      | Inr posts \<Rightarrow> format_posts posts [])))"

definition fetch_request :: "json \<Rightarrow> json \<Rightarrow> request" where
  "fetch_request access_token author_urn =
     \<lparr>http_method = ''GET'', url = LINKEDIN_POSTS_URL_TEMPLATE_format author_urn,
      headers = [(''Authorization'', Bearer access_token)],
      payload = NoPayload\<rparr>"

definition fetch_linkedin_posts ::
  "provider \<Rightarrow> json \<Rightarrow> json \<Rightarrow> request list \<Rightarrow> (exn + json list) \<times> request list" where
  "fetch_linkedin_posts prov access_token author_urn sent =
     (if \<not> truthy access_token \<or> \<not> truthy author_urn then (Inr [], sent)
      else case send prov (fetch_request access_token author_urn) sent of
             (Json posts_data, sent') \<Rightarrow>
               (case parse_posts posts_data of
                  Inl e \<Rightarrow> (Inr [], sent')
                | Inr formatted_posts \<Rightarrow> (Inr formatted_posts, sent'))
           | (HTTPStatusError, sent') \<Rightarrow> (Inr [], sent')
           | (OtherError, sent') \<Rightarrow> (Inr [], sent'))"

section \<open>The token store\<close>

text \<open>
  \<^verbatim>\<open>user_tokens\<close> (line 83) is a dictionary from the provider's user id to a dictionary
  with the keys \<^verbatim>\<open>access_token\<close> and \<^verbatim>\<open>author_urn\<close>. It keeps insertion order:
  \<^verbatim>\<open>list(user_tokens.keys())[0]\<close> is the key inserted first. Assigning to a key that is
  already there replaces the value in place; a new key goes to the end.
\<close>

type_synonym token_info = "(string \<times> json) list"

type_synonym token_store = "(atom \<times> token_info) list"

fun store_get :: "token_store \<Rightarrow> atom \<Rightarrow> token_info option" where
  "store_get [] k = None"
| "store_get ((k', v) # rest) k = (if py_eq k' k then Some v else store_get rest k)"

fun store_set :: "token_store \<Rightarrow> atom \<Rightarrow> token_info \<Rightarrow> token_store" where
  "store_set [] k v = [(k, v)]"
| "store_set ((k', v') # rest) k v =
     (if py_eq k' k then (k', v) # rest else (k', v') # store_set rest k v)"

text \<open>The state a handler runs in: the token store, and the outbound requests sent so far.\<close>

record app_state =
  user_tokens :: token_store
  outbound :: "request list"

section \<open>Responses\<close>

text \<open>
  What a handler hands back to the framework. A template response carries the template
  name and the context dictionary (without its \<^verbatim>\<open>request\<close> entry); a redirect carries
  its target and status code, 307 where the source gives none. The third constructor is
  an \<^verbatim>\<open>HTTPException\<close> object that the handler returns as its value.
\<close>

datatype ctx_value = CBool bool | CStr string | CPosts "json list"

datatype response =
    RedirectResponse string nat
  | TemplateResponse string "(string \<times> ctx_value) list"
  | HTTPException nat string

text \<open>
  The status line the client receives. A response object is sent with its own status
  code. Any other returned value is serialised into the body of a response with the
  route's default status code 200: an \<^verbatim>\<open>HTTPException\<close> sets the status only when it is
  raised, and the handlers of this program return it. An exception that escapes the
  handler gives 500.
\<close>

fun http_status :: "exn + response \<Rightarrow> nat" where
  "http_status (Inr (RedirectResponse target code)) = code"
| "http_status (Inr (TemplateResponse name ctx)) = 200"
| "http_status (Inr (HTTPException code detail)) = 200"
| "http_status (Inl e) = 500"

section \<open>Routes\<close>

text \<open>
  The part of \<^verbatim>\<open>read_root\<close>, \<^verbatim>\<open>create_post\<close> and \<^verbatim>\<open>refresh_posts_route\<close> that picks
  the session (lines 243 to 246, 319 to 322, 352 to 355): the first key of the store, the
  entry under it, and its two fields, \<open>None\<close> where a field is missing.
\<close>

definition current_session :: "token_store \<Rightarrow> exn + json \<times> json" where
  "current_session store =
     (case store of
        [] \<Rightarrow> Inl KeyError
      | (current_user_id, first_info) # rest \<Rightarrow>
          (case store_get store current_user_id of
             None \<Rightarrow> Inl KeyError
           | Some token_info \<Rightarrow>
               Inr (dict_get token_info ''access_token'' PyNone,
                    dict_get token_info ''author_urn'' PyNone)))"

text \<open>
  \<^verbatim>\<open>read_root\<close>, \<^verbatim>\<open>GET /\<close>, lines 230 to 257. \<open>login_page\<close> is lines 238 to 239
  (and 251 to 252): the page with the login prompt, or what building the URL raises.
\<close>

definition login_page :: "environ \<Rightarrow> exn + response" where
  "login_page env =
     (case get_linkedin_auth_url env of
        Inl e \<Rightarrow> Inl e
      | Inr auth_url \<Rightarrow>
          Inr (TemplateResponse ''index.html''
                 [(''is_authenticated'', CBool False), (''auth_url'', CStr auth_url)]))"

definition read_root :: "environ \<Rightarrow> provider \<Rightarrow> app_state \<Rightarrow> (exn + response) \<times> app_state" where
  "read_root env prov s =
     (if user_tokens s = [] then (login_page env, s)
      else case current_session (user_tokens s) of
             Inl e \<Rightarrow> (Inl e, s)
           | Inr (access_token, author_urn) \<Rightarrow>
               if \<not> truthy access_token \<or> \<not> truthy author_urn then (login_page env, s)
               else (case fetch_linkedin_posts prov access_token author_urn (outbound s) of
                       (Inl e, sent') \<Rightarrow> (Inl e, s\<lparr>outbound := sent'\<rparr>)
                     | (Inr posts, sent') \<Rightarrow>
                         (Inr (TemplateResponse ''index.html''
                                 [(''is_authenticated'', CBool True), (''posts'', CPosts posts)]),
                          s\<lparr>outbound := sent'\<rparr>)))"

text \<open>\<^verbatim>\<open>login\<close>, \<^verbatim>\<open>GET /login\<close>, lines 259 to 266.\<close>

definition endswith :: "string \<Rightarrow> string \<Rightarrow> bool" where
  "endswith s suffix \<longleftrightarrow>
     length suffix \<le> length s \<and> drop (length s - length suffix) s = suffix"

definition login :: "environ \<Rightarrow> exn + response" where
  "login env =
     (case get_linkedin_auth_url env of
        Inl e \<Rightarrow> Inl e
      | Inr auth_url \<Rightarrow>
          if auth_url \<noteq> [] \<and> \<not> endswith auth_url ''/error''
          then Inr (RedirectResponse auth_url 307)
          else Inr (HTTPException 500 ''Failed to generate LinkedIn auth URL.''))"

text \<open>
  \<^verbatim>\<open>callback\<close>, \<^verbatim>\<open>GET /callback\<close>, lines 268 to 306. \<open>callback_store\<close> is lines 293 to
  306: a user id that is a list or a dictionary cannot be a key, and the assignment of
  line 297 raises. \<open>callback_profile\<close> is lines 286 to 291, \<open>callback_exchange\<close> lines 281
  to 284.
\<close>

definition callback_store :: "json \<Rightarrow> json \<Rightarrow> app_state \<Rightarrow> (exn + response) \<times> app_state" where
  "callback_store access_token user_id s =
     (case user_id of
        Atom k \<Rightarrow>
          (Inr (RedirectResponse ''/'' 307),
           s\<lparr>user_tokens := store_set (user_tokens s) k
                [(''access_token'', access_token),
                 (''author_urn'', Str (''urn:li:person:'' @ py_str k))]\<rparr>)
      | Arr xs \<Rightarrow> (Inl TypeError, s)
      | Obj d \<Rightarrow> (Inl TypeError, s))"

definition callback_profile ::
  "provider \<Rightarrow> json \<Rightarrow> app_state \<Rightarrow> (exn + response) \<times> app_state" where
  "callback_profile prov access_token s =
     (case get_linkedin_profile prov access_token (outbound s) of
        (profile_data, sent') \<Rightarrow>
          (let s' = s\<lparr>outbound := sent'\<rparr>;
               failed = Inr (HTTPException 500 ''Failed to retrieve user profile from LinkedIn.'')
           in if \<not> truthy profile_data then (failed, s')
              else case py_contains ''id'' profile_data of
                     Inl e \<Rightarrow> (Inl e, s')
                   | Inr present \<Rightarrow>
                       if \<not> present then (failed, s')
                       else (case py_getitem profile_data ''id'' of
                               Inl e \<Rightarrow> (Inl e, s')
                             | Inr user_id \<Rightarrow> callback_store access_token user_id s')))"

definition callback_exchange ::
  "environ \<Rightarrow> provider \<Rightarrow> string \<Rightarrow> app_state \<Rightarrow> (exn + response) \<times> app_state" where
  "callback_exchange env prov code s =
     (case get_linkedin_access_token env prov code (outbound s) of
        (token_data, sent') \<Rightarrow>
          (let s' = s\<lparr>outbound := sent'\<rparr>;
               failed = Inr (HTTPException 500 ''Failed to retrieve access token from LinkedIn.'')
           in if \<not> truthy token_data then (failed, s')
              else case py_contains ''access_token'' token_data of
                     Inl e \<Rightarrow> (Inl e, s')
                   | Inr present \<Rightarrow>
                       if \<not> present then (failed, s')
                       else (case py_getitem token_data ''access_token'' of
                               Inl e \<Rightarrow> (Inl e, s')
                             | Inr access_token \<Rightarrow> callback_profile prov access_token s')))"

definition callback ::
  "environ \<Rightarrow> provider \<Rightarrow> string option \<Rightarrow> string option \<Rightarrow> string option \<Rightarrow> app_state
     \<Rightarrow> (exn + response) \<times> app_state" where
  "callback env prov code error state s =
     (if opt_truthy error
      then (Inr (HTTPException 400 (''LinkedIn authorization failed: '' @ fmt_opt error)), s)
      else case code of
             None \<Rightarrow> (Inr (HTTPException 400 ''No authorization code received.''), s)
           | Some c \<Rightarrow>
               if c = [] then (Inr (HTTPException 400 ''No authorization code received.''), s)
               else callback_exchange env prov c s)"

text \<open>\<^verbatim>\<open>create_post\<close>, \<^verbatim>\<open>POST /create_post\<close>, lines 308 to 343.\<close>

definition create_post ::
  "environ \<Rightarrow> provider \<Rightarrow> string \<Rightarrow> app_state \<Rightarrow> (exn + response) \<times> app_state" where
  "create_post env prov post_content s =
     (if post_content = []
      then (Inr (TemplateResponse ''index.html''
                   [(''error'', CStr ''Post content cannot be empty.''), (''posts'', CPosts [])]), s)
      else if user_tokens s = [] then (Inr (RedirectResponse ''/login'' 307), s)
      else case current_session (user_tokens s) of
             Inl e \<Rightarrow> (Inl e, s)
           | Inr (access_token, author_urn) \<Rightarrow>
               if \<not> truthy access_token \<or> \<not> truthy author_urn
               then (Inr (RedirectResponse ''/login'' 307), s)
               else (case create_linkedin_post prov access_token author_urn post_content (outbound s) of
                       (post_created, sent') \<Rightarrow>
                         if truthy post_created
                         then (Inr (RedirectResponse ''/'' 303), s\<lparr>outbound := sent'\<rparr>)
                         else (case fetch_linkedin_posts prov access_token author_urn sent' of
                                 (Inl e, sent'') \<Rightarrow> (Inl e, s\<lparr>outbound := sent''\<rparr>)
                               | (Inr posts, sent'') \<Rightarrow>
                                   (Inr (TemplateResponse ''index.html''
                                           [(''error'', CStr ''Failed to create post.''),
                                            (''posts'', CPosts posts)]),
                                    s\<lparr>outbound := sent''\<rparr>))))"

text \<open>\<^verbatim>\<open>refresh_posts_route\<close>, \<^verbatim>\<open>GET /refresh_posts\<close>, lines 345 to 362.\<close>

definition refresh_posts_route :: "provider \<Rightarrow> app_state \<Rightarrow> (exn + response) \<times> app_state" where
  "refresh_posts_route prov s =
     (if user_tokens s = [] then (Inr (RedirectResponse ''/login'' 307), s)
      else case current_session (user_tokens s) of
             Inl e \<Rightarrow> (Inl e, s)
           | Inr (access_token, author_urn) \<Rightarrow>
               if \<not> truthy access_token \<or> \<not> truthy author_urn
               then (Inr (RedirectResponse ''/login'' 307), s)
               else (case fetch_linkedin_posts prov access_token author_urn (outbound s) of
                       (Inl e, sent') \<Rightarrow> (Inl e, s\<lparr>outbound := sent'\<rparr>)
                     | (Inr posts, sent') \<Rightarrow>
                         (Inr (TemplateResponse ''index.html''
                                 [(''is_authenticated'', CBool True), (''posts'', CPosts posts)]),
                          s\<lparr>outbound := sent'\<rparr>)))"

section \<open>Example inputs\<close>

text \<open>
  A configured environment, a provider that accepts every call, a provider that rejects
  every \<^verbatim>\<open>POST\<close>, and a store with one session. The theorems below are instantiated
  at them.
\<close>

definition example_env :: environ where
  "example_env =
     [''LINKEDIN_CLIENT_ID'' \<mapsto> ''my id/1'', ''LINKEDIN_CLIENT_SECRET'' \<mapsto> ''s3cret'']"


definition example_posts :: json where
  "example_posts =
     Obj [(''elements'', Arr
       [Obj [(''specificContent'', Obj [(''com.linkedin.ugc.ShareContent'',
               Obj [(''shareCommentary'', Obj [(''text'', Str ''first post'')])])]),
             (''created'', Atom (AInt 1700000000))],
        Obj [(''id'', Str ''urn:li:share:2'')]])]"

definition example_provider :: provider where
  "example_provider sent rq =
     (if url rq = LINKEDIN_TOKEN_URL
      then Json (Obj [(''access_token'', Str ''tok-1''), (''expires_in'', Atom (AInt 5184000))])
      else if url rq = LINKEDIN_PROFILE_URL then Json (Obj [(''id'', Str ''123'')])
      else if http_method rq = ''POST'' then Json (Obj [(''id'', Str ''urn:li:share:3'')])
      else Json example_posts)"


definition example_info :: token_info where
  "example_info = [(''access_token'', Str ''tok-1''), (''author_urn'', Str ''urn:li:person:123'')]"

definition example_state :: app_state where
  "example_state = \<lparr>user_tokens = [(AStr ''123'', example_info)], outbound = []\<rparr>"

definition empty_state :: app_state where
  "empty_state = \<lparr>user_tokens = [], outbound = []\<rparr>"

definition other_info :: token_info where
  "other_info = [(''access_token'', Str ''tok-2''), (''author_urn'', Str ''urn:li:person:456'')]"

text \<open>A store with two sessions; the one of user 456 was inserted first.\<close>

definition two_user_state :: app_state where
  "two_user_state =
     \<lparr>user_tokens = [(AStr ''456'', other_info),
                     (AStr ''123'', [(''access_token'', Str ''tok-0''),
                                     (''author_urn'', Str ''urn:li:person:123'')])],
      outbound = []\<rparr>"



section \<open>Basic facts\<close>

lemma py_eq_refl [simp]: "py_eq k k"
  by (cases k) auto

lemma py_eq_sym: "py_eq a b \<Longrightarrow> py_eq b a"
  by (cases a; cases b) (auto split: if_splits)

lemma py_eq_trans: "py_eq a b \<Longrightarrow> py_eq b c \<Longrightarrow> py_eq a c"
  by (cases a; cases b; cases c) (auto split: if_splits)

lemma store_get_set_same: "store_get (store_set st k v) k = Some v"
  by (induction st) (auto intro: py_eq_trans py_eq_sym)

lemma store_get_set_other:
  assumes "\<not> py_eq k k'"
  shows "store_get (store_set st k v) k' = store_get st k'"
proof (induction st)
  case Nil
  from assms show ?case by simp
next
  case (Cons e st)
  obtain a b where e: "e = (a, b)" by (cases e)
  show ?case
  proof (cases "py_eq a k")
    case True
    with assms have "\<not> py_eq a k'"
      using py_eq_sym py_eq_trans by blast
    with True show ?thesis by (simp add: e)
  next
    case False
    with Cons.IH show ?thesis by (simp add: e)
  qed
qed

text \<open>The session the three authenticated routes pick is the first entry of the store.\<close>

lemma current_session_first:
  "current_session ((k, info) # rest) =
     Inr (dict_get info ''access_token'' PyNone, dict_get info ''author_urn'' PyNone)"
  by (simp add: current_session_def)

lemma fetch_linkedin_posts_returns:
  "\<exists>posts sent'. fetch_linkedin_posts prov a u sent = (Inr posts, sent')"
  by (auto simp: fetch_linkedin_posts_def send_def split: http_result.splits sum.splits)

lemma fetch_linkedin_posts_sent:
  "snd (fetch_linkedin_posts prov a u sent) = sent \<or>
   snd (fetch_linkedin_posts prov a u sent) = sent @ [fetch_request a u]"
  by (auto simp: fetch_linkedin_posts_def send_def split: http_result.splits sum.splits)


lemma example_token_exchange:
  "get_linkedin_access_token example_env example_provider ''code-1'' [] =
     (Obj [(''access_token'', Str ''tok-1''), (''expires_in'', Atom (AInt 5184000))],
      [token_request example_env ''code-1''])"
  by (simp add: get_linkedin_access_token_def send_def example_provider_def token_request_def
      example_env_def LINKEDIN_CLIENT_ID_def LINKEDIN_CLIENT_SECRET_def LINKEDIN_REDIRECT_URI_def)

lemma example_profile_fetch:
  "get_linkedin_profile example_provider (Str ''tok-1'') [token_request example_env ''code-1''] =
     (Obj [(''id'', Str ''123'')],
      [token_request example_env ''code-1'', profile_request (Str ''tok-1'')])"
  by (simp add: get_linkedin_profile_def send_def example_provider_def profile_request_def
      LINKEDIN_TOKEN_URL_def LINKEDIN_PROFILE_URL_def)

lemma create_linkedin_post_sent:
  "snd (create_linkedin_post prov a u pc sent) = sent \<or>
   snd (create_linkedin_post prov a u pc sent) = sent @ [create_request a u pc]"
  by (auto simp: create_linkedin_post_def send_def split: http_result.splits)

lemma read_root_first:
  assumes "user_tokens s = (k, info) # rest"
  shows "read_root env prov s =
     (let a = dict_get info ''access_token'' PyNone; u = dict_get info ''author_urn'' PyNone
      in if \<not> truthy a \<or> \<not> truthy u then (login_page env, s)
         else (Inr (TemplateResponse ''index.html''
                      [(''is_authenticated'', CBool True),
                       (''posts'', CPosts (projr (fst (fetch_linkedin_posts prov a u (outbound s)))))]),
               s\<lparr>outbound := snd (fetch_linkedin_posts prov a u (outbound s))\<rparr>))"
  using assms fetch_linkedin_posts_returns [of prov "dict_get info ''access_token'' PyNone"
      "dict_get info ''author_urn'' PyNone" "outbound s"]
  by (auto simp: read_root_def current_session_first Let_def)

lemma refresh_posts_route_first:
  assumes "user_tokens s = (k, info) # rest"
  shows "refresh_posts_route prov s =
     (let a = dict_get info ''access_token'' PyNone; u = dict_get info ''author_urn'' PyNone
      in if \<not> truthy a \<or> \<not> truthy u then (Inr (RedirectResponse ''/login'' 307), s)
         else (Inr (TemplateResponse ''index.html''
                      [(''is_authenticated'', CBool True),
                       (''posts'', CPosts (projr (fst (fetch_linkedin_posts prov a u (outbound s)))))]),
               s\<lparr>outbound := snd (fetch_linkedin_posts prov a u (outbound s))\<rparr>))"
  using assms fetch_linkedin_posts_returns [of prov "dict_get info ''access_token'' PyNone"
      "dict_get info ''author_urn'' PyNone" "outbound s"]
  by (auto simp: refresh_posts_route_def current_session_first Let_def)

lemma create_post_first:
  assumes "user_tokens s = (k, info) # rest" and "post_content \<noteq> []"
  shows "create_post env prov post_content s =
     (let a = dict_get info ''access_token'' PyNone; u = dict_get info ''author_urn'' PyNone
      in if \<not> truthy a \<or> \<not> truthy u then (Inr (RedirectResponse ''/login'' 307), s)
         else let created = create_linkedin_post prov a u post_content (outbound s)
              in if truthy (fst created)
                 then (Inr (RedirectResponse ''/'' 303), s\<lparr>outbound := snd created\<rparr>)
                 else (Inr (TemplateResponse ''index.html''
                              [(''error'', CStr ''Failed to create post.''),
                               (''posts'', CPosts (projr (fst (fetch_linkedin_posts prov a u (snd created)))))]),
                       s\<lparr>outbound := snd (fetch_linkedin_posts prov a u (snd created))\<rparr>))"
proof -
  let ?a = "dict_get info ''access_token'' PyNone" and ?u = "dict_get info ''author_urn'' PyNone"
  obtain created sent1 where c: "create_linkedin_post prov ?a ?u post_content (outbound s) = (created, sent1)"
    by (cases "create_linkedin_post prov ?a ?u post_content (outbound s)")
  from fetch_linkedin_posts_returns [of prov ?a ?u sent1] c assms
  show ?thesis
    by (auto simp: create_post_def current_session_first Let_def)
qed

text \<open>The store is written by \<open>callback_store\<close> only, under the user id it is given.\<close>

lemma callback_store_frame:
  "callback_store tok user_id s = (r, s') \<Longrightarrow>
     (r \<noteq> Inr (RedirectResponse ''/'' 307) \<and> s' = s)
   \<or> (\<exists>uid info. user_id = Atom uid \<and> r = Inr (RedirectResponse ''/'' 307)
         \<and> s' = s\<lparr>user_tokens := store_set (user_tokens s) uid info\<rparr>)"
  by (auto simp: callback_store_def split: json.splits)

lemma callback_profile_frame:
  assumes "callback_profile prov tok s = (r, s')"
  shows "(r \<noteq> Inr (RedirectResponse ''/'' 307) \<and> user_tokens s' = user_tokens s)
   \<or> (\<exists>pd sent2 uid info. get_linkedin_profile prov tok (outbound s) = (pd, sent2)
         \<and> py_getitem pd ''id'' = Inr (Atom uid) \<and> r = Inr (RedirectResponse ''/'' 307)
         \<and> user_tokens s' = store_set (user_tokens s) uid info)"
proof -
  obtain pd sent2 where g: "get_linkedin_profile prov tok (outbound s) = (pd, sent2)"
    by (cases "get_linkedin_profile prov tok (outbound s)")
  let ?s1 = "s\<lparr>outbound := sent2\<rparr>"
  consider (fail) "r \<noteq> Inr (RedirectResponse ''/'' 307)" "s' = ?s1"
    | (store) user_id where "py_getitem pd ''id'' = Inr user_id"
        "callback_store tok user_id ?s1 = (r, s')"
    using assms g by (auto simp: callback_profile_def Let_def split: if_splits sum.splits)
  then show ?thesis
  proof cases
    case fail
    then show ?thesis by simp
  next
    case store
    from callback_store_frame [OF store(2)] show ?thesis
      using g store(1) by auto
  qed
qed

lemma callback_exchange_frame:
  assumes "callback_exchange env prov c s = (r, s')"
  shows "(r \<noteq> Inr (RedirectResponse ''/'' 307) \<and> user_tokens s' = user_tokens s)
   \<or> (\<exists>td sent1 tok pd sent2 uid info.
         get_linkedin_access_token env prov c (outbound s) = (td, sent1)
         \<and> py_getitem td ''access_token'' = Inr tok
         \<and> get_linkedin_profile prov tok sent1 = (pd, sent2)
         \<and> py_getitem pd ''id'' = Inr (Atom uid) \<and> r = Inr (RedirectResponse ''/'' 307)
         \<and> user_tokens s' = store_set (user_tokens s) uid info)"
proof -
  obtain td sent1 where g: "get_linkedin_access_token env prov c (outbound s) = (td, sent1)"
    by (cases "get_linkedin_access_token env prov c (outbound s)")
  let ?s1 = "s\<lparr>outbound := sent1\<rparr>"
  consider (fail) "r \<noteq> Inr (RedirectResponse ''/'' 307)" "s' = ?s1"
    | (profile) tok where "py_getitem td ''access_token'' = Inr tok"
        "callback_profile prov tok ?s1 = (r, s')"
    using assms g by (auto simp: callback_exchange_def Let_def split: if_splits sum.splits)
  then show ?thesis
  proof cases
    case fail
    then show ?thesis by simp
  next
    case profile
    from callback_profile_frame [OF profile(2)] show ?thesis
      using g profile(1) by auto
  qed
qed

lemma callback_frame:
  assumes "callback env prov code error state s = (r, s')"
  shows "(r \<noteq> Inr (RedirectResponse ''/'' 307) \<and> user_tokens s' = user_tokens s)
   \<or> (\<exists>c td sent1 tok pd sent2 uid info. code = Some c
         \<and> get_linkedin_access_token env prov c (outbound s) = (td, sent1)
         \<and> py_getitem td ''access_token'' = Inr tok
         \<and> get_linkedin_profile prov tok sent1 = (pd, sent2)
         \<and> py_getitem pd ''id'' = Inr (Atom uid) \<and> r = Inr (RedirectResponse ''/'' 307)
         \<and> user_tokens s' = store_set (user_tokens s) uid info)"
proof -
  consider (fail) "r \<noteq> Inr (RedirectResponse ''/'' 307)" "s' = s"
    | (exchange) c where "code = Some c" "callback_exchange env prov c s = (r, s')"
    using assms by (auto simp: callback_def split: if_splits option.splits)
  then show ?thesis
  proof cases
    case fail
    then show ?thesis by simp
  next
    case exchange
    from callback_exchange_frame [OF exchange(2)] show ?thesis
      using exchange(1) by auto
  qed
qed

lemma read_root_frame: "user_tokens (snd (read_root env prov s)) = user_tokens s"
  by (auto simp: read_root_def split: sum.splits prod.splits)

lemma create_post_frame: "user_tokens (snd (create_post env prov pc s)) = user_tokens s"
  by (auto simp: create_post_def split: sum.splits prod.splits)

lemma refresh_posts_route_frame: "user_tokens (snd (refresh_posts_route prov s)) = user_tokens s"
  by (auto simp: refresh_posts_route_def split: sum.splits prod.splits)

lemma two_user_callback:
  "callback example_env example_provider (Some ''code-1'') None None two_user_state =
     (Inr (RedirectResponse ''/'' 307),
      \<lparr>user_tokens = [(AStr ''456'', other_info), (AStr ''123'', example_info)],
       outbound = [token_request example_env ''code-1'', profile_request (Str ''tok-1'')]\<rparr>)"
  by (simp add: callback_def callback_exchange_def callback_profile_def callback_store_def
      two_user_state_def example_token_exchange example_profile_fetch example_info_def)

section \<open>Creating a post\<close>

text \<open>
  Claim C9. \<^verbatim>\<open>create_post\<close> called with an empty \<^verbatim>\<open>post_content\<close> returns the page
  \<^verbatim>\<open>index.html\<close> with the error \<^verbatim>\<open>Post content cannot be empty.\<close> and an empty list of
  posts, whatever the token store holds: the check of the content comes before the check
  of the store, so the answer is the same when the store is empty. The state is returned
  as it was.
\<close>

theorem create_post_empty_content:
  "create_post env prov [] s =
     (Inr (TemplateResponse ''index.html''
             [(''error'', CStr ''Post content cannot be empty.''), (''posts'', CPosts [])]), s)"
  by (simp add: create_post_def)

theorem create_post_empty_content_witness:
  "create_post example_env example_provider [] empty_state =
     (Inr (TemplateResponse ''index.html''
             [(''error'', CStr ''Post content cannot be empty.''), (''posts'', CPosts [])]),
      empty_state)
   \<and> user_tokens empty_state = []"
  using create_post_empty_content [of example_env example_provider empty_state]
  by (simp add: empty_state_def)

text \<open>
  Claim C3. \<^verbatim>\<open>create_post\<close> called with a non-empty \<^verbatim>\<open>post_content\<close> on an empty token
  store returns a redirect to \<^verbatim>\<open>/login\<close> and leaves the state as it was: the list of
  outbound requests is unchanged, so no create request (and no other request) is sent.
\<close>

theorem create_post_unauthenticated:
  "post_content \<noteq> [] \<Longrightarrow> user_tokens s = [] \<Longrightarrow>
   create_post env prov post_content s = (Inr (RedirectResponse ''/login'' 307), s)"
  by (simp add: create_post_def)

theorem create_post_unauthenticated_witness:
  "create_post example_env example_provider ''hello'' empty_state =
     (Inr (RedirectResponse ''/login'' 307), empty_state)
   \<and> outbound empty_state = []"
proof -
  have c: "''hello'' \<noteq> []" by simp
  have e: "user_tokens empty_state = []" by (simp add: empty_state_def)
  from create_post_unauthenticated [OF c e, of example_env example_provider]
  show ?thesis by (simp add: empty_state_def)
qed



section \<open>The authorization URL and the login route\<close>

lemma endswith_append:
  "length suffix \<le> length t \<Longrightarrow> endswith (xs @ t) suffix = endswith t suffix"
  by (simp add: endswith_def)

lemma quote_plus_safe:
  "quote_plus ''response_type'' = Inr ''response_type''"
  "quote_plus ''code'' = Inr ''code''"
  "quote_plus ''client_id'' = Inr ''client_id''"
  "quote_plus ''redirect_uri'' = Inr ''redirect_uri''"
  "quote_plus ''scope'' = Inr ''scope''"
  "quote_plus ''state'' = Inr ''state''"
  "quote_plus ''some_random_string_to_prevent_csrf'' = Inr ''some_random_string_to_prevent_csrf''"
  "quote_plus ''r_liteprofile r_emailaddress w_member_social'' =
     Inr ''r_liteprofile+r_emailaddress+w_member_social''"
  by (simp_all add: quote_plus_def valid_utf8_def lead_def quote_from_bytes_def quote_char_def
      always_safe_def)

lemma get_linkedin_auth_url_configured:
  assumes "LINKEDIN_CLIENT_ID env = Some cid" "cid \<noteq> []"
    and "LINKEDIN_REDIRECT_URI env = Some ruri" "ruri \<noteq> []"
    and "valid_utf8 cid" "valid_utf8 ruri"
  shows "get_linkedin_auth_url env =
     Inr (LINKEDIN_AUTH_URL @ ''?response_type=code&client_id='' @ quote_from_bytes cid
       @ ''&redirect_uri='' @ quote_from_bytes ruri
       @ ''&scope=r_liteprofile+r_emailaddress+w_member_social&state=some_random_string_to_prevent_csrf'')"
proof -
  have "quote_plus cid = Inr (quote_from_bytes cid)" "quote_plus ruri = Inr (quote_from_bytes ruri)"
    using assms(5,6) by (simp_all add: quote_plus_def)
  then show ?thesis
    using assms(1-4) by (simp add: get_linkedin_auth_url_def urlencode_def quote_plus_safe)
qed

lemma get_linkedin_auth_url_undecodable:
  assumes "LINKEDIN_CLIENT_ID env = Some cid" "cid \<noteq> []"
    and "LINKEDIN_REDIRECT_URI env = Some ruri" "ruri \<noteq> []"
    and "\<not> valid_utf8 cid \<or> \<not> valid_utf8 ruri"
  shows "get_linkedin_auth_url env = Inl UnicodeEncodeError"
proof (cases "valid_utf8 cid")
  case False
  then have "quote_plus cid = Inl UnicodeEncodeError" by (simp add: quote_plus_def)
  then show ?thesis
    using assms(1-4) by (simp add: get_linkedin_auth_url_def urlencode_def quote_plus_safe)
next
  case True
  with assms(5) have "quote_plus cid = Inr (quote_from_bytes cid)"
    "quote_plus ruri = Inl UnicodeEncodeError"
    by (simp_all add: quote_plus_def)
  then show ?thesis
    using assms(1-4) by (simp add: get_linkedin_auth_url_def urlencode_def quote_plus_safe)
qed


text \<open>A URL that was built does not end in \<^verbatim>\<open>/error\<close>: it ends with the state value.\<close>

lemma get_linkedin_auth_url_not_error:
  assumes "opt_truthy (LINKEDIN_CLIENT_ID env)" "opt_truthy (LINKEDIN_REDIRECT_URI env)"
    and "get_linkedin_auth_url env = Inr auth_url"
  shows "auth_url \<noteq> [] \<and> \<not> endswith auth_url ''/error''"
proof -
  from assms(1,2) obtain cid ruri where c: "LINKEDIN_CLIENT_ID env = Some cid" "cid \<noteq> []"
    and r: "LINKEDIN_REDIRECT_URI env = Some ruri" "ruri \<noteq> []"
    by (cases "LINKEDIN_CLIENT_ID env"; cases "LINKEDIN_REDIRECT_URI env") auto
  from assms(3) get_linkedin_auth_url_undecodable [OF c r]
  have v: "valid_utf8 cid" "valid_utf8 ruri" by auto
  let ?tail = "''&scope=r_liteprofile+r_emailaddress+w_member_social&state=some_random_string_to_prevent_csrf''"
  have u: "auth_url =
      (LINKEDIN_AUTH_URL @ ''?response_type=code&client_id='' @ quote_from_bytes cid
        @ ''&redirect_uri='' @ quote_from_bytes ruri) @ ?tail"
    using get_linkedin_auth_url_configured [OF c r v] assms(3) by simp
  have "\<not> endswith ?tail ''/error''" by (simp add: endswith_def)
  then have "\<not> endswith auth_url ''/error''"
    unfolding u by (subst endswith_append) simp_all
  moreover have "auth_url \<noteq> []" unfolding u by simp
  ultimately show ?thesis by simp
qed

lemma login_redirects:
  "opt_truthy (LINKEDIN_CLIENT_ID env) \<Longrightarrow> opt_truthy (LINKEDIN_REDIRECT_URI env) \<Longrightarrow>
   get_linkedin_auth_url env = Inr auth_url \<Longrightarrow>
   login env = Inr (RedirectResponse auth_url 307)"
  using get_linkedin_auth_url_not_error [of env auth_url] by (simp add: login_def)

lemma login_raises:
  "get_linkedin_auth_url env = Inl e \<Longrightarrow> login env = Inl e"
  by (simp add: login_def)

text \<open>
  The encoding loses nothing: \<open>quote_from_bytes\<close> is injective and never writes \<^verbatim>\<open>&\<close>, so
  the URL built from a configured environment determines the client id and the redirect
  URI.
\<close>

lemma hex_digit_inj:
  assumes "i < 16" "j < 16" "hex_digit i = hex_digit j"
  shows "i = j"
proof -
  have d: "distinct ''0123456789ABCDEF''" by simp
  have l: "length ''0123456789ABCDEF'' = 16" by simp
  from assms show ?thesis
    unfolding hex_digit_def using d l by (metis nth_eq_iff_index_eq)
qed

lemma hex_digit_not_special:
  assumes "i < 16"
  shows "hex_digit i \<noteq> CHR ''&''"
proof -
  have "hex_digit i \<in> set ''0123456789ABCDEF''"
    unfolding hex_digit_def using assms by (intro nth_mem) simp
  then show ?thesis by auto
qed

lemma char_nibbles: "(of_char c :: nat) div 16 < 16" "(of_char c :: nat) mod 16 < 16"
proof -
  have "(of_char c :: nat) < 256" by simp
  then show "(of_char c :: nat) div 16 < 16" by arith
  show "(of_char c :: nat) mod 16 < 16" by simp
qed

lemma not_safe: "\<not> always_safe CHR ''+''" "\<not> always_safe CHR ''%''" "\<not> always_safe CHR ''&''"
  "\<not> always_safe CHR '' ''"
  by (simp_all add: always_safe_def)

lemma quote_char_split:
  assumes "quote_char a @ xs = quote_char b @ ys"
  shows "a = b \<and> xs = ys"
proof -
  consider (safe) "always_safe a" | (space) "a = CHR '' ''" | (other) "\<not> always_safe a" "a \<noteq> CHR '' ''"
    by blast
  then show ?thesis
  proof cases
    case safe
    with assms not_safe show ?thesis
      by (auto simp: quote_char_def split: if_splits)
  next
    case space
    with assms not_safe show ?thesis
      by (auto simp: quote_char_def split: if_splits)
  next
    case other
    with assms not_safe have b: "\<not> always_safe b" "b \<noteq> CHR '' ''"
      by (auto simp: quote_char_def split: if_splits)
    with other assms have h: "hex_digit (of_char a div 16) = hex_digit (of_char b div 16)"
      "hex_digit (of_char a mod 16) = hex_digit (of_char b mod 16)" and r: "xs = ys"
      by (simp_all add: quote_char_def)
    from h have "(of_char a :: nat) div 16 = of_char b div 16" "(of_char a :: nat) mod 16 = of_char b mod 16"
      using hex_digit_inj char_nibbles by blast+
    then have "(of_char a :: nat) = of_char b"
      by (metis div_mult_mod_eq)
    then have "a = b" by simp
    with r show ?thesis by simp
  qed
qed

lemma quote_char_nonempty: "quote_char c \<noteq> []"
  by (simp add: quote_char_def)

lemma quote_from_bytes_inj: "quote_from_bytes s = quote_from_bytes t \<Longrightarrow> s = t"
proof (induction s arbitrary: t)
  case Nil
  then show ?case
    by (cases t) (simp_all add: quote_from_bytes_def quote_char_nonempty)
next
  case (Cons a s)
  show ?case
  proof (cases t)
    case Nil
    with Cons.prems show ?thesis by (simp add: quote_from_bytes_def quote_char_nonempty)
  next
    case (Cons b t')
    with Cons.prems have "quote_char a @ quote_from_bytes s = quote_char b @ quote_from_bytes t'"
      by (simp add: quote_from_bytes_def)
    then have "a = b" "quote_from_bytes s = quote_from_bytes t'"
      using quote_char_split by blast+
    with Cons.IH Cons show ?thesis by simp
  qed
qed

lemma amp_not_in_quote_char: "CHR ''&'' \<notin> set (quote_char c)"
proof -
  have "hex_digit (of_char c div 16) \<noteq> CHR ''&''" "hex_digit (of_char c mod 16) \<noteq> CHR ''&''"
    using hex_digit_not_special char_nibbles by blast+
  then show ?thesis
    using not_safe by (auto simp: quote_char_def)
qed

lemma amp_not_in_quote_from_bytes: "CHR ''&'' \<notin> set (quote_from_bytes s)"
  by (simp add: quote_from_bytes_def amp_not_in_quote_char)

lemma split_at_first:
  assumes "c \<notin> set xs" "c \<notin> set xs'" "xs @ c # ys = xs' @ c # ys'"
  shows "xs = xs' \<and> ys = ys'"
  using assms
proof (induction xs arbitrary: xs')
  case Nil
  then show ?case by (cases xs') auto
next
  case (Cons x xs)
  then show ?case by (cases xs') auto
qed

lemma auth_url_determines_config:
  assumes "LINKEDIN_CLIENT_ID env = Some cid" "cid \<noteq> []"
    and "LINKEDIN_REDIRECT_URI env = Some ruri" "ruri \<noteq> []"
    and "valid_utf8 cid" "valid_utf8 ruri"
    and "LINKEDIN_CLIENT_ID env' = Some cid'" "cid' \<noteq> []"
    and "LINKEDIN_REDIRECT_URI env' = Some ruri'" "ruri' \<noteq> []"
    and "valid_utf8 cid'" "valid_utf8 ruri'"
    and "get_linkedin_auth_url env = get_linkedin_auth_url env'"
  shows "cid = cid' \<and> ruri = ruri'"
proof -
  let ?tail = "''scope=r_liteprofile+r_emailaddress+w_member_social&state=some_random_string_to_prevent_csrf''"
  from assms(13)
  have "quote_from_bytes cid @ CHR ''&'' # (''redirect_uri='' @ quote_from_bytes ruri @ CHR ''&'' # ?tail) =
        quote_from_bytes cid' @ CHR ''&'' # (''redirect_uri='' @ quote_from_bytes ruri' @ CHR ''&'' # ?tail)"
    by (simp add: get_linkedin_auth_url_configured [OF assms(1-6)]
        get_linkedin_auth_url_configured [OF assms(7-12)])
  from split_at_first [OF amp_not_in_quote_from_bytes amp_not_in_quote_from_bytes this]
  have 1: "quote_from_bytes cid = quote_from_bytes cid'"
    and "quote_from_bytes ruri @ CHR ''&'' # ?tail = quote_from_bytes ruri' @ CHR ''&'' # ?tail"
    by simp_all
  from split_at_first [OF amp_not_in_quote_from_bytes amp_not_in_quote_from_bytes this(2)]
  have 2: "quote_from_bytes ruri = quote_from_bytes ruri'" by simp
  from 1 2 show ?thesis by (simp add: quote_from_bytes_inj)
qed





text \<open>
  Claim C8 says that \<^verbatim>\<open>GET /login\<close> answers with status 500 when the URL could not be
  built. With nothing configured, \<^verbatim>\<open>login\<close> builds an \<^verbatim>\<open>HTTPException\<close> with status code
  500 and returns it (line 266) instead of raising it. The returned object is a value like
  any other: the client receives status 200 with the object's fields as the body. The
  other half of the claim holds for every URL that is built, see \<open>login_redirects\<close> above.
\<close>

theorem login_unconfigured_returns_exception_object:
  "login Map.empty = Inr (HTTPException 500 ''Failed to generate LinkedIn auth URL.'')
   \<and> http_status (login Map.empty) = 200"
  by (simp add: login_def get_linkedin_auth_url_def LINKEDIN_CLIENT_ID_def endswith_def)

section \<open>The callback route\<close>

lemma callback_error_unchanged:
  "opt_truthy error \<Longrightarrow>
   callback env prov code error state s =
     (Inr (HTTPException 400 (''LinkedIn authorization failed: '' @ fmt_opt error)), s)"
  by (simp add: callback_def)

text \<open>
  Claim C1 says that \<^verbatim>\<open>GET /callback\<close> with \<^verbatim>\<open>error\<close> set answers with status 400. With
  \<^verbatim>\<open>error=access_denied\<close> and a code, \<^verbatim>\<open>callback\<close> builds an \<^verbatim>\<open>HTTPException\<close> with
  status code 400 and returns it (line 273) instead of raising it, so the client receives
  status 200. The state is returned as it was: the token store is not modified, as the
  claim says and as \<open>callback_error_unchanged\<close> shows for every request with \<^verbatim>\<open>error\<close> set.
\<close>

theorem callback_error_returns_exception_object:
  "callback example_env example_provider (Some ''code-1'') (Some ''access_denied'') None example_state =
     (Inr (HTTPException 400 ''LinkedIn authorization failed: access_denied''), example_state)
   \<and> http_status (fst (callback example_env example_provider (Some ''code-1'')
         (Some ''access_denied'') None example_state)) = 200"
  by (simp add: callback_def)

text \<open>
  Claim C2. \<^verbatim>\<open>callback\<close> called with a non-empty code and no error: when
  \<^verbatim>\<open>get_linkedin_access_token\<close> returns a dictionary that holds \<^verbatim>\<open>access_token\<close> and
  \<^verbatim>\<open>get_linkedin_profile\<close>, called with that token, returns a dictionary whose \<^verbatim>\<open>id\<close> is
  the string \<open>user_id\<close>, the response is a redirect to \<^verbatim>\<open>/\<close> and the store then maps
  \<open>user_id\<close> to an entry whose \<^verbatim>\<open>author_urn\<close> is \<^verbatim>\<open>urn:li:person:\<close> followed by \<open>user_id\<close>
  and whose \<^verbatim>\<open>access_token\<close> is the exchanged token. The id \<^verbatim>\<open>123\<close> is one such
  string.
\<close>

theorem callback_success:
  assumes "\<not> opt_truthy error" and "code \<noteq> []"
    and "get_linkedin_access_token env prov code (outbound s) = (Obj token_data, sent1)"
    and "map_of token_data ''access_token'' = Some access_token"
    and "get_linkedin_profile prov access_token sent1 = (Obj profile_data, sent2)"
    and "map_of profile_data ''id'' = Some (Str user_id)"
  shows "\<exists>s' info.
           callback env prov (Some code) error state s = (Inr (RedirectResponse ''/'' 307), s')
         \<and> store_get (user_tokens s') (AStr user_id) = Some info
         \<and> dict_get info ''author_urn'' PyNone = Str (''urn:li:person:'' @ user_id)
         \<and> dict_get info ''access_token'' PyNone = access_token"
proof -
  let ?info = "[(''access_token'', access_token),
                (''author_urn'', Str (''urn:li:person:'' @ user_id))]"
  let ?s' = "s\<lparr>outbound := sent2, user_tokens := store_set (user_tokens s) (AStr user_id) ?info\<rparr>"
  from assms(4) have t: "token_data \<noteq> []" "''access_token'' \<in> set (map fst token_data)"
    by (auto dest: map_of_SomeD simp: rev_image_eqI)
  from assms(6) have p: "profile_data \<noteq> []" "''id'' \<in> set (map fst profile_data)"
    by (auto dest: map_of_SomeD simp: rev_image_eqI)
  have "callback_store access_token (Str user_id) (s\<lparr>outbound := sent2\<rparr>) =
      (Inr (RedirectResponse ''/'' 307), ?s')"
    by (simp add: callback_store_def)
  then have "callback_profile prov access_token (s\<lparr>outbound := sent1\<rparr>) =
      (Inr (RedirectResponse ''/'' 307), ?s')"
    using assms(5,6) p by (simp add: callback_profile_def)
  then have "callback_exchange env prov code s = (Inr (RedirectResponse ''/'' 307), ?s')"
    using assms(3,4) t by (simp add: callback_exchange_def)
  then have c: "callback env prov (Some code) error state s = (Inr (RedirectResponse ''/'' 307), ?s')"
    using assms(1,2) by (simp add: callback_def)
  have g: "store_get (user_tokens ?s') (AStr user_id) = Some ?info"
    by (simp add: store_get_set_same)
  have "dict_get ?info ''author_urn'' PyNone = Str (''urn:li:person:'' @ user_id)"
    and "dict_get ?info ''access_token'' PyNone = access_token"
    by (simp_all add: dict_get_def)
  with c g show ?thesis by blast
qed

theorem callback_success_witness:
  "\<exists>s' info.
       callback example_env example_provider (Some ''code-1'') None (Some ''xyz'') empty_state =
         (Inr (RedirectResponse ''/'' 307), s')
     \<and> store_get (user_tokens s') (AStr ''123'') = Some info
     \<and> dict_get info ''author_urn'' PyNone = Str ''urn:li:person:123''
     \<and> dict_get info ''access_token'' PyNone = Str ''tok-1''"
proof -
  have e: "\<not> opt_truthy None" and c: "''code-1'' \<noteq> []" by simp_all
  have o: "outbound empty_state = []" by (simp add: empty_state_def)
  have t: "map_of [(''access_token'', Str ''tok-1''), (''expires_in'', Atom (AInt 5184000))]
      ''access_token'' = Some (Str ''tok-1'')" by simp
  have p: "map_of [(''id'', Str ''123'')] ''id'' = Some (Str ''123'')" by simp
  have x: "get_linkedin_access_token example_env example_provider ''code-1'' (outbound empty_state) =
     (Obj [(''access_token'', Str ''tok-1''), (''expires_in'', Atom (AInt 5184000))],
      [token_request example_env ''code-1''])"
    using example_token_exchange by (simp add: o)
  from callback_success [OF e c x t example_profile_fetch p, of "Some ''xyz''"]
  show ?thesis by simp
qed

section \<open>Fetching posts\<close>





section \<open>The session of the authenticated routes\<close>







section \<open>Who writes the token store\<close>

text \<open>
  Claim C10. \<^verbatim>\<open>read_root\<close>, \<^verbatim>\<open>create_post\<close> and \<^verbatim>\<open>refresh_posts_route\<close> return the
  token store they were given. So does \<^verbatim>\<open>callback\<close> whenever its response is not the
  redirect to \<^verbatim>\<open>/\<close>. When it is, the token exchange and the profile fetch have returned,
  the profile's \<^verbatim>\<open>id\<close> is a scalar \<open>uid\<close>, and the store gives every key other than \<open>uid\<close>
  what it gave before. (\<^verbatim>\<open>login\<close> does not take the store at all.)
\<close>

theorem token_store_frame:
  "user_tokens (snd (read_root env prov s)) = user_tokens s
   \<and> user_tokens (snd (create_post env prov post_content s)) = user_tokens s
   \<and> user_tokens (snd (refresh_posts_route prov s)) = user_tokens s
   \<and> (fst (callback env prov code error state s) \<noteq> Inr (RedirectResponse ''/'' 307) \<longrightarrow>
        user_tokens (snd (callback env prov code error state s)) = user_tokens s)
   \<and> (fst (callback env prov code error state s) = Inr (RedirectResponse ''/'' 307) \<longrightarrow>
        (\<exists>c td sent1 tok pd sent2 uid. code = Some c
           \<and> get_linkedin_access_token env prov c (outbound s) = (td, sent1)
           \<and> py_getitem td ''access_token'' = Inr tok
           \<and> get_linkedin_profile prov tok sent1 = (pd, sent2)
           \<and> py_getitem pd ''id'' = Inr (Atom uid)
           \<and> (\<forall>k. \<not> py_eq uid k \<longrightarrow>
                  store_get (user_tokens (snd (callback env prov code error state s))) k =
                  store_get (user_tokens s) k)))"
proof -
  obtain r s' where c: "callback env prov code error state s = (r, s')"
    by (cases "callback env prov code error state s")
  from callback_frame [OF c]
  have 1: "r \<noteq> Inr (RedirectResponse ''/'' 307) \<longrightarrow> user_tokens s' = user_tokens s"
    by auto
  from callback_frame [OF c]
  have 2: "r = Inr (RedirectResponse ''/'' 307) \<longrightarrow>
        (\<exists>c td sent1 tok pd sent2 uid. code = Some c
           \<and> get_linkedin_access_token env prov c (outbound s) = (td, sent1)
           \<and> py_getitem td ''access_token'' = Inr tok
           \<and> get_linkedin_profile prov tok sent1 = (pd, sent2)
           \<and> py_getitem pd ''id'' = Inr (Atom uid)
           \<and> (\<forall>k. \<not> py_eq uid k \<longrightarrow> store_get (user_tokens s') k = store_get (user_tokens s) k))"
    by (auto simp: store_get_set_other)
  from 1 2 show ?thesis
    by (simp add: c read_root_frame create_post_frame refresh_posts_route_frame)
qed

theorem token_store_frame_witness:
  "user_tokens (snd (read_root example_env example_provider two_user_state)) =
     user_tokens two_user_state
   \<and> user_tokens (snd (create_post example_env example_provider ''hello'' two_user_state)) =
     user_tokens two_user_state
   \<and> user_tokens (snd (refresh_posts_route example_provider two_user_state)) =
     user_tokens two_user_state
   \<and> user_tokens (snd (callback example_env example_provider None (Some ''access_denied'') None
        two_user_state)) = user_tokens two_user_state
   \<and> store_get (user_tokens (snd (callback example_env example_provider (Some ''code-1'') None None
        two_user_state))) (AStr ''456'') = Some other_info
   \<and> store_get (user_tokens (snd (callback example_env example_provider (Some ''code-1'') None None
        two_user_state))) (AStr ''123'') = Some example_info"
proof -
  let ?denied = "callback example_env example_provider None (Some ''access_denied'') None two_user_state"
  let ?ok = "callback example_env example_provider (Some ''code-1'') None None two_user_state"
  have d: "fst ?denied \<noteq> Inr (RedirectResponse ''/'' 307)"
    by (simp add: callback_def)
  have o: "fst ?ok = Inr (RedirectResponse ''/'' 307)"
    by (simp add: two_user_callback)
  have ob: "outbound two_user_state = []" by (simp add: two_user_state_def)
  note f1 = token_store_frame [of example_env example_provider two_user_state "''hello''"
      None "Some ''access_denied''" None]
  note f2 = token_store_frame [of example_env example_provider two_user_state "''hello''"
      "Some ''code-1''" None None]
  from f1 d have a: "user_tokens (snd ?denied) = user_tokens two_user_state" by blast
  from f2 o obtain td sent1 tok pd sent2 uid where
    x: "get_linkedin_access_token example_env example_provider ''code-1'' (outbound two_user_state)
          = (td, sent1)"
      "py_getitem td ''access_token'' = Inr tok"
      "get_linkedin_profile example_provider tok sent1 = (pd, sent2)"
      "py_getitem pd ''id'' = Inr (Atom uid)"
      "\<forall>k. \<not> py_eq uid k \<longrightarrow>
         store_get (user_tokens (snd ?ok)) k = store_get (user_tokens two_user_state) k"
    by blast
  from x(1) have "td = Obj [(''access_token'', Str ''tok-1''), (''expires_in'', Atom (AInt 5184000))]"
    and "sent1 = [token_request example_env ''code-1'']"
    by (simp_all add: ob example_token_exchange)
  with x(2,3) have "pd = Obj [(''id'', Str ''123'')]"
    by (auto simp: example_profile_fetch)
  with x(4) have "uid = AStr ''123''" by simp
  with x(5) have "store_get (user_tokens (snd ?ok)) (AStr ''456'') =
      store_get (user_tokens two_user_state) (AStr ''456'')"
    by simp
  then have b: "store_get (user_tokens (snd ?ok)) (AStr ''456'') = Some other_info"
    by (simp add: two_user_state_def)
  have c: "store_get (user_tokens (snd ?ok)) (AStr ''123'') = Some example_info"
    by (simp add: two_user_callback)
  from f1 a b c show ?thesis by simp
qed

end
